theory Spec2Isabelle
  imports Complex_Main
begin

section \<open>The schema of \<^verbatim>\<open>app/models.py\<close>\<close>

text \<open>
  Each Django model class is a record of its declared fields and its primary key \<open>pk\<close>.
  A non-null foreign key is the primary key of the row it points to, a nullable one an
  \<open>option\<close>. A \<^verbatim>\<open>CharField\<close> with \<^verbatim>\<open>choices\<close> is a datatype of its choices, a
  \<^verbatim>\<open>DecimalField(max_digits=12, decimal_places=2)\<close> is the amount in hundredths, a date or
  a time is a number, a \<^verbatim>\<open>FileField\<close> is the stored path.
\<close>

datatype Role = ADMIN | MANAGER | EMPLOYEE

datatype RuleType = PERCENTAGE | SPECIFIC | HYBRID

datatype ExpenseStatus = DRAFT | PENDING | APPROVED | REJECTED

text \<open>\<^verbatim>\<open>ExpenseApproval.STATUS_CHOICES\<close>: the strings PENDING, APPROVED and REJECTED.\<close>

datatype ApprovalStatus = APPROVAL_PENDING | APPROVAL_APPROVED | APPROVAL_REJECTED

record Company =
  pk :: nat
  name :: string
  country :: string
  currency_code :: string
  currency_symbol :: string
  created_at :: nat

record Department =
  pk :: nat
  company :: nat
  name :: string

text \<open>
  A \<^verbatim>\<open>User\<close> object has no primary key until it is first saved. \<open>username\<close> stands for
  the fields inherited from \<^verbatim>\<open>AbstractUser\<close>, which nothing in this file writes.
\<close>

record User =
  pk :: "nat option"
  username :: string
  company :: "nat option"
  department :: "nat option"
  role :: Role
  manager :: "nat option"

text \<open>
  The Python object that is saved can carry the attributes \<^verbatim>\<open>_company_name\<close>,
  \<^verbatim>\<open>_country\<close>, \<^verbatim>\<open>_currency_code\<close> and \<^verbatim>\<open>_currency_symbol\<close>, which are no columns
  of the table; \<open>None\<close> is an attribute that is absent or holds \<^verbatim>\<open>None\<close>, which
  \<^verbatim>\<open>getattr(instance, name, None)\<close> does not tell apart.
\<close>

record UserInstance = User +
  company_name_attr :: "string option"
  country_attr :: "string option"
  currency_code_attr :: "string option"
  currency_symbol_attr :: "string option"

record ApprovalRule =
  pk :: nat
  company :: nat
  name :: string
  rule_type :: RuleType
  minimum_percentage :: "int option"
  specific_approver :: "nat option"
  is_active :: bool

record ApprovalFlow =
  pk :: nat
  company :: nat
  name :: string
  description :: string
  department :: "nat option"
  min_amount :: "int option"
  max_amount :: "int option"
  rule :: "nat option"
  created_at :: nat

record FlowStep =
  pk :: nat
  flow :: nat
  approver :: nat
  order :: int
  is_manager_step :: bool
  is_high_priority :: bool

record Expense =
  pk :: nat
  employee :: nat
  description :: string
  category :: string
  amount :: int
  currency_code :: string
  currency_symbol :: string
  converted_amount :: int
  converted_currency_code :: string
  converted_currency_symbol :: string
  expense_date :: nat
  receipt :: "string option"
  status :: ExpenseStatus
  created_at :: nat
  approval_rule :: "nat option"
  flow :: "nat option"

record ExpenseApproval =
  pk :: nat
  expense :: nat
  approver :: nat
  flow_step :: "nat option"
  status :: ApprovalStatus
  comments :: string
  acted_at :: "nat option"

text \<open>
  The database: one list of rows per table, in insertion order, and the time that
  \<^verbatim>\<open>auto_now_add\<close> reads.
\<close>

record db =
  companies :: "Company list"
  departments :: "Department list"
  users :: "User list"
  approval_rules :: "ApprovalRule list"
  approval_flows :: "ApprovalFlow list"
  flow_steps :: "FlowStep list"
  expenses :: "Expense list"
  expense_approvals :: "ExpenseApproval list"
  clock :: nat

text \<open>The primary key an insert gets when the object has none: one more than the largest.\<close>

definition next_pk :: "nat list \<Rightarrow> nat" where
  "next_pk ks = Suc (fold max ks 0)"

section \<open>Company provisioning on admin signup\<close>

text \<open>Python's truth value of an attribute that is \<^verbatim>\<open>None\<close> or a string.\<close>

fun truthy :: "string option \<Rightarrow> bool" where
  "truthy None = False"
| "truthy (Some s) = (s \<noteq> [])"

text \<open>\<^verbatim>\<open>Company.objects.create(name=..., country=..., currency_code=..., currency_symbol=...)\<close>\<close>

definition Company_objects_create ::
  "db \<Rightarrow> string \<Rightarrow> string \<Rightarrow> string \<Rightarrow> string \<Rightarrow> db \<times> Company" where
  "Company_objects_create d n c cc cs =
     (let row = \<lparr>Company.pk = next_pk (map Company.pk (companies d)), name = n, country = c,
                 currency_code = cc, currency_symbol = cs, created_at = clock d\<rparr>
      in (d\<lparr>companies := companies d @ [row]\<rparr>, row))"

text \<open>
  Writing a \<^verbatim>\<open>User\<close> to its table, as \<^verbatim>\<open>Model.save\<close> does: an object whose primary
  key is a row of the table updates that row, any other object is inserted (with a fresh
  key when it has none). The flag is the \<^verbatim>\<open>created\<close> of the \<^verbatim>\<open>post_save\<close> signal.
\<close>

definition User_write :: "db \<Rightarrow> 'a User_scheme \<Rightarrow> db \<times> 'a User_scheme \<times> bool" where
  "User_write d instance =
     (case User.pk instance of
        Some k \<Rightarrow>
          if Some k \<in> set (map User.pk (users d))
          then (d\<lparr>users := map (\<lambda>u. if User.pk u = Some k then User.truncate instance else u) (users d)\<rparr>,
                instance, False)
          else (d\<lparr>users := users d @ [User.truncate instance]\<rparr>, instance, True)
      | None \<Rightarrow>
          (let instance' = instance\<lparr>User.pk := Some (next_pk (List.map_filter User.pk (users d)))\<rparr>
           in (d\<lparr>users := users d @ [User.truncate instance']\<rparr>, instance', True)))"

text \<open>
  \<^verbatim>\<open>instance.save()\<close> writes the row and sends \<^verbatim>\<open>post_save\<close>, whose one receiver is
  \<^verbatim>\<open>create_company_for_admin\<close>; the receiver saves the instance again. Both return the
  database and the object as they leave them. The receiver reads neither \<^verbatim>\<open>sender\<close> nor
  its keyword arguments. The guard \<open>truthy\<close> makes each attribute that is passed on a
  string that is not empty.
\<close>

function User_save :: "db \<Rightarrow> UserInstance \<Rightarrow> db \<times> UserInstance"
  and create_company_for_admin :: "db \<Rightarrow> UserInstance \<Rightarrow> bool \<Rightarrow> db \<times> UserInstance" where
  "User_save d instance =
     (case User_write d instance of (d', instance', created) \<Rightarrow>
        create_company_for_admin d' instance' created)"
| "create_company_for_admin d instance created =
     (if created \<and> role instance = ADMIN \<and> User.company instance = None then
        (let company_name = company_name_attr instance;
             country' = country_attr instance;
             currency_code' = currency_code_attr instance;
             currency_symbol' = currency_symbol_attr instance
         in if truthy company_name \<and> truthy country' \<and> truthy currency_code' \<and> truthy currency_symbol'
            then (case Company_objects_create d (the company_name) (the country')
                         (the currency_code') (the currency_symbol') of
                    (d', company') \<Rightarrow>
                      User_save d' (instance\<lparr>User.company := Some (Company.pk company')\<rparr>))
            else (d, instance))
      else (d, instance))"
  by pat_completeness auto
termination
  by (relation "measure (\<lambda>x. case x of
         Inl (d, instance) \<Rightarrow> (if User.company instance = None then 3 else 1)
       | Inr (d, instance, created) \<Rightarrow> (if User.company instance = None then 2 else 0))")
     (auto simp: User_write_def Let_def split: option.splits if_splits)


section \<open>Creating rows: defaults and nullable columns\<close>

text \<open>
  \<^verbatim>\<open>ApprovalRule.objects.create(...)\<close>. The columns \<^verbatim>\<open>minimum_percentage\<close> and
  \<^verbatim>\<open>specific_approver\<close> are declared \<^verbatim>\<open>null=True, blank=True\<close>; the class has no
  \<^verbatim>\<open>clean\<close>, no validator and no constraint, so the only checks are those of the
  database: the rows the foreign keys name must exist.
\<close>

datatype db_error = IntegrityError

definition ApprovalRule_objects_create ::
  "db \<Rightarrow> nat \<Rightarrow> string \<Rightarrow> RuleType \<Rightarrow> int option \<Rightarrow> nat option \<Rightarrow> bool
     \<Rightarrow> db_error + db \<times> ApprovalRule" where
  "ApprovalRule_objects_create d company' name' rule_type' minimum_percentage' specific_approver' is_active' =
     (if company' \<notin> set (map Company.pk (companies d)) then Inl IntegrityError
      else if specific_approver' \<noteq> None \<and> specific_approver' \<notin> set (map User.pk (users d))
      then Inl IntegrityError
      else
        (let row = \<lparr>ApprovalRule.pk = next_pk (map ApprovalRule.pk (approval_rules d)),
                    company = company', name = name', rule_type = rule_type',
                    minimum_percentage = minimum_percentage',
                    specific_approver = specific_approver', is_active = is_active'\<rparr>
         in Inr (d\<lparr>approval_rules := approval_rules d @ [row]\<rparr>, row)))"

text \<open>
  The invariant that the data model is said to keep: exactly the fields of the rule's
  type are populated.
\<close>

definition rule_fields_populated :: "ApprovalRule \<Rightarrow> bool" where
  "rule_fields_populated r \<longleftrightarrow>
     ((minimum_percentage r \<noteq> None) = (rule_type r = PERCENTAGE \<or> rule_type r = HYBRID))
     \<and> ((specific_approver r \<noteq> None) = (rule_type r = SPECIFIC \<or> rule_type r = HYBRID))"


section \<open>Deleting rows: \<^verbatim>\<open>on_delete\<close>\<close>

text \<open>
  Django's deletion collects the rows that point to a deleted row through a
  \<^verbatim>\<open>CASCADE\<close> key and deletes them too, and sets every \<^verbatim>\<open>SET_NULL\<close> key that
  points to a deleted row to null.

  Only \<^verbatim>\<open>ExpenseApproval.flow_step\<close> (\<^verbatim>\<open>SET_NULL\<close>) points to a \<^verbatim>\<open>FlowStep\<close>.
\<close>

definition FlowStep_delete :: "db \<Rightarrow> nat list \<Rightarrow> db" where
  "FlowStep_delete d ks =
     d\<lparr>flow_steps := filter (\<lambda>s. FlowStep.pk s \<notin> set ks) (flow_steps d),
       expense_approvals :=
         map (\<lambda>a. case flow_step a of
                     None \<Rightarrow> a
                   | Some k \<Rightarrow> if k \<in> set ks then a\<lparr>flow_step := None\<rparr> else a)
             (expense_approvals d)\<rparr>"

text \<open>Nothing points to an \<^verbatim>\<open>ExpenseApproval\<close>.\<close>

definition ExpenseApproval_delete :: "db \<Rightarrow> nat list \<Rightarrow> db" where
  "ExpenseApproval_delete d ks =
     d\<lparr>expense_approvals := filter (\<lambda>a. ExpenseApproval.pk a \<notin> set ks) (expense_approvals d)\<rparr>"

text \<open>Only \<^verbatim>\<open>ExpenseApproval.expense\<close> (\<^verbatim>\<open>CASCADE\<close>) points to an \<^verbatim>\<open>Expense\<close>.\<close>

definition Expense_delete :: "db \<Rightarrow> nat list \<Rightarrow> db" where
  "Expense_delete d ks =
     (let approvals = map ExpenseApproval.pk (filter (\<lambda>a. expense a \<in> set ks) (expense_approvals d));
          d1 = ExpenseApproval_delete d approvals
      in d1\<lparr>expenses := filter (\<lambda>x. Expense.pk x \<notin> set ks) (expenses d1)\<rparr>)"

text \<open>
  A \<^verbatim>\<open>User\<close> is pointed to by \<^verbatim>\<open>User.manager\<close> and \<^verbatim>\<open>ApprovalRule.specific_approver\<close>
  (\<^verbatim>\<open>SET_NULL\<close>) and by \<^verbatim>\<open>FlowStep.approver\<close>, \<^verbatim>\<open>Expense.employee\<close> and
  \<^verbatim>\<open>ExpenseApproval.approver\<close> (\<^verbatim>\<open>CASCADE\<close>). \<open>User_delete d m\<close> is \<^verbatim>\<open>m.delete()\<close>
  for the user with primary key \<open>m\<close>.
\<close>

definition User_delete :: "db \<Rightarrow> nat \<Rightarrow> db" where
  "User_delete d m =
     (let steps = map FlowStep.pk (filter (\<lambda>s. FlowStep.approver s = m) (flow_steps d));
          expenses' = map Expense.pk (filter (\<lambda>x. employee x = m) (expenses d));
          approvals = map ExpenseApproval.pk
                        (filter (\<lambda>a. ExpenseApproval.approver a = m) (expense_approvals d));
          d1 = FlowStep_delete d steps;
          d2 = Expense_delete d1 expenses';
          d3 = ExpenseApproval_delete d2 approvals
      in d3\<lparr>users := map (\<lambda>u. if manager u = Some m then u\<lparr>manager := None\<rparr> else u)
                         (filter (\<lambda>u. User.pk u \<noteq> Some m) (users d3)),
            approval_rules :=
              map (\<lambda>r. if specific_approver r = Some m then r\<lparr>specific_approver := None\<rparr> else r)
                  (approval_rules d3)\<rparr>)"


section \<open>The approval engine\<close>

text \<open>
  \<^verbatim>\<open>models.py\<close> and \<^verbatim>\<open>admin.py\<close> hold the schema only: the repository has no code
  that resolves a flow, evaluates a rule or activates a step. Every definition of this
  section is therefore written from the specification (sections 4.1 to 4.3, 6 and 7),
  over the tables above.
\<close>


text \<open>Modelled from the spec: the evaluator's verdict.\<close>

datatype Verdict = Pending | Approved | Rejected

text \<open>
  Modelled from the spec: the outcome of a decision, \<^verbatim>\<open>outcome \<in> {APPROVED, REJECTED}\<close>.
\<close>

datatype Outcome = OUTCOME_APPROVED | OUTCOME_REJECTED

text \<open>
  Modelled from the spec: the rule as the evaluator reads it (design note of section 9),
  a percentage threshold, a designated approver, or both.
\<close>

datatype RuleSpec = Percentage int | Specific nat | Hybrid int nat

text \<open>
  Modelled from the spec: one entry of \<^verbatim>\<open>decisions_so_far\<close>, who decided, the outcome,
  and whether the flow step of the decision is a high-priority step.
\<close>

record Decision =
  decided_by :: nat
  outcome :: Outcome
  high_priority :: bool

subsection \<open>Rule Evaluator (section 4.2)\<close>

text \<open>Modelled from the spec: \<^verbatim>\<open>approved_count\<close>, the count of APPROVED decisions.\<close>

definition approved_count :: "Decision list \<Rightarrow> nat" where
  "approved_count ds = length (filter (\<lambda>d. outcome d = OUTCOME_APPROVED) ds)"

text \<open>
  Modelled from the spec: the SPECIFIC rule. Approved once the designated approver
  appears among the decisions with APPROVED, Rejected once it appears with REJECTED,
  otherwise Pending.
\<close>

definition specific_verdict :: "nat \<Rightarrow> Decision list \<Rightarrow> Verdict" where
  "specific_verdict a ds =
     (if list_ex (\<lambda>d. decided_by d = a \<and> outcome d = OUTCOME_APPROVED) ds then Approved
      else if list_ex (\<lambda>d. decided_by d = a \<and> outcome d = OUTCOME_REJECTED) ds then Rejected
      else Pending)"

text \<open>
  Modelled from the spec: the PERCENTAGE rule. \<open>total_steps\<close> is the number of steps of the
  flow, \<open>activated\<close> the number of steps activated so far, so \<open>total_steps - activated\<close> steps
  are still unactivated. Approved once \<open>approved_count / total_steps * 100 \<ge> p\<close>; Rejected once
  \<open>(approved_count + remaining) / total_steps * 100 < p\<close>. The quotients are rational numbers.
  The state machine calls the evaluator for a flow with at least one step only.
\<close>

definition percentage_verdict :: "int \<Rightarrow> Decision list \<Rightarrow> nat \<Rightarrow> nat \<Rightarrow> Verdict" where
  "percentage_verdict p ds activated total_steps =
     (let remaining = total_steps - activated
      in if (of_nat (approved_count ds) :: rat) / of_nat total_steps * 100 \<ge> of_int p then Approved
         else if (of_nat (approved_count ds + remaining) :: rat) / of_nat total_steps * 100 < of_int p
         then Rejected
         else Pending)"

text \<open>
  Modelled from the spec: the HYBRID rule. Approved if either sub-rule yields Approved,
  Rejected only if both yield Rejected.
\<close>

definition hybrid_verdict :: "int \<Rightarrow> nat \<Rightarrow> Decision list \<Rightarrow> nat \<Rightarrow> nat \<Rightarrow> Verdict" where
  "hybrid_verdict p a ds activated total_steps =
     (if specific_verdict a ds = Approved \<or> percentage_verdict p ds activated total_steps = Approved
      then Approved
      else if specific_verdict a ds = Rejected \<and> percentage_verdict p ds activated total_steps = Rejected
      then Rejected
      else Pending)"

text \<open>
  Modelled from the spec: no rule on the expense. Approved once all steps are APPROVED,
  Rejected once any step is REJECTED.
\<close>

definition unanimous_verdict :: "Decision list \<Rightarrow> nat \<Rightarrow> Verdict" where
  "unanimous_verdict ds total_steps =
     (if approved_count ds = total_steps then Approved
      else if list_ex (\<lambda>d. outcome d = OUTCOME_REJECTED) ds then Rejected
      else Pending)"

text \<open>
  Modelled from the spec: \<^verbatim>\<open>evaluate(rule, decisions_so_far, total_steps_activated)\<close>,
  with the number of steps of the flow as \<open>total_steps\<close>. An APPROVED decision of a
  high-priority step overrides the rule.
\<close>

definition evaluate :: "RuleSpec option \<Rightarrow> Decision list \<Rightarrow> nat \<Rightarrow> nat \<Rightarrow> Verdict" where
  "evaluate rule' ds activated total_steps =
     (if list_ex (\<lambda>d. outcome d = OUTCOME_APPROVED \<and> high_priority d) ds then Approved
      else case rule' of
             None \<Rightarrow> unanimous_verdict ds total_steps
           | Some (Specific a) \<Rightarrow> specific_verdict a ds
           | Some (Percentage p) \<Rightarrow> percentage_verdict p ds activated total_steps
           | Some (Hybrid p a) \<Rightarrow> hybrid_verdict p a ds activated total_steps)"

subsection \<open>Flow Resolver (section 4.1)\<close>


definition get_expense :: "db \<Rightarrow> nat \<Rightarrow> Expense option" where
  "get_expense d k = find (\<lambda>x. Expense.pk x = k) (expenses d)"


definition get_step :: "db \<Rightarrow> nat \<Rightarrow> FlowStep option" where
  "get_step d k = find (\<lambda>s. FlowStep.pk s = k) (flow_steps d)"







text \<open>Modelled from the spec: the steps of a flow in ascending \<open>order\<close>.\<close>

definition steps_of :: "db \<Rightarrow> nat \<Rightarrow> FlowStep list" where
  "steps_of d fk = sort_key FlowStep.order (filter (\<lambda>s. FlowStep.flow s = fk) (flow_steps d))"



subsection \<open>Approval State Machine (section 4.3)\<close>

text \<open>Modelled from the spec: the approval rows of an expense, in the order of their creation.\<close>

definition approvals_of :: "db \<Rightarrow> nat \<Rightarrow> ExpenseApproval list" where
  "approvals_of d e = filter (\<lambda>a. expense a = e) (expense_approvals d)"

text \<open>Modelled from the spec: activating a step, a new PENDING \<^verbatim>\<open>ExpenseApproval\<close> for it.\<close>

definition activate :: "db \<Rightarrow> nat \<Rightarrow> FlowStep \<times> nat \<Rightarrow> db" where
  "activate d e sa =
     d\<lparr>expense_approvals := expense_approvals d @
         [\<lparr>ExpenseApproval.pk = next_pk (map ExpenseApproval.pk (expense_approvals d)),
           expense = e, approver = snd sa, flow_step = Some (FlowStep.pk (fst sa)),
           status = APPROVAL_PENDING, comments = [], acted_at = None\<rparr>]\<rparr>"

text \<open>Modelled from the spec: an update of the row of an expense.\<close>

definition update_expense :: "db \<Rightarrow> nat \<Rightarrow> (Expense \<Rightarrow> Expense) \<Rightarrow> db" where
  "update_expense d e upd =
     d\<lparr>expenses := map (\<lambda>x. if Expense.pk x = e then upd x else x) (expenses d)\<rparr>"





text \<open>
  Modelled from the spec: the decision that an approval row records, none while it is
  PENDING. A decision whose step was deleted is of no high-priority step.
\<close>

definition decision_of :: "db \<Rightarrow> ExpenseApproval \<Rightarrow> Decision option" where
  "decision_of d a =
     (let hp = (case flow_step a of
                  None \<Rightarrow> False
                | Some sk \<Rightarrow> (case get_step d sk of None \<Rightarrow> False | Some s \<Rightarrow> is_high_priority s))
      in case ExpenseApproval.status a of
           APPROVAL_PENDING \<Rightarrow> None
         | APPROVAL_APPROVED \<Rightarrow>
             Some \<lparr>decided_by = ExpenseApproval.approver a, outcome = OUTCOME_APPROVED, high_priority = hp\<rparr>
         | APPROVAL_REJECTED \<Rightarrow>
             Some \<lparr>decided_by = ExpenseApproval.approver a, outcome = OUTCOME_REJECTED, high_priority = hp\<rparr>)"

text \<open>
  Modelled from the spec: \<^verbatim>\<open>decisions_so_far\<close>, the decision history of an expense, in the
  order in which its approvals were created.
\<close>

definition decisions_so_far :: "db \<Rightarrow> nat \<Rightarrow> Decision list" where
  "decisions_so_far d e = List.map_filter (decision_of d) (approvals_of d e)"

text \<open>Modelled from the spec: the status that an outcome gives to an approval.\<close>

fun status_of_outcome :: "Outcome \<Rightarrow> ApprovalStatus" where
  "status_of_outcome OUTCOME_APPROVED = APPROVAL_APPROVED"
| "status_of_outcome OUTCOME_REJECTED = APPROVAL_REJECTED"

text \<open>
  Modelled from the spec: recording the decision on the targeted approval, its status,
  comments and \<^verbatim>\<open>acted_at\<close>.
\<close>

definition decide :: "db \<Rightarrow> nat \<Rightarrow> Outcome \<Rightarrow> string \<Rightarrow> db" where
  "decide d approval_id outcome' comments' =
     d\<lparr>expense_approvals :=
         map (\<lambda>a. if ExpenseApproval.pk a = approval_id
                  then a\<lparr>ExpenseApproval.status := status_of_outcome outcome',
                         comments := comments', acted_at := Some (clock d)\<rparr>
                  else a)
             (expense_approvals d)\<rparr>"






subsection \<open>What the state machine is to keep\<close>








section \<open>Example data\<close>

text \<open>
  The scenario of section 8 of the specification: company Acme, a flow for amounts from 0
  to 10000.00 with two steps, the employee's manager and then the CFO, under a SPECIFIC
  rule that names the CFO, and an expense of 5000.00 in DRAFT.
\<close>

definition acme_db :: db where
  "acme_db =
     \<lparr>companies = [\<lparr>Company.pk = 1, name = ''Acme'', country = ''India'', currency_code = ''INR'',
                     currency_symbol = ''Rs'', created_at = 0\<rparr>],
      departments = [],
      users = [\<lparr>User.pk = Some 1, username = ''employee'', company = Some 1, department = None,
                 role = EMPLOYEE, manager = Some 2\<rparr>,
               \<lparr>User.pk = Some 2, username = ''manager'', company = Some 1, department = None,
                 role = MANAGER, manager = None\<rparr>,
               \<lparr>User.pk = Some 3, username = ''cfo'', company = Some 1, department = None,
                 role = MANAGER, manager = None\<rparr>],
      approval_rules = [\<lparr>ApprovalRule.pk = 1, company = 1, name = ''CFO decides'',
                          rule_type = SPECIFIC, minimum_percentage = None,
                          specific_approver = Some 3, is_active = True\<rparr>],
      approval_flows = [\<lparr>ApprovalFlow.pk = 1, company = 1, name = ''Travel Expense Flow'',
                          description = [], department = None, min_amount = Some 0,
                          max_amount = Some 1000000, rule = Some 1, created_at = 0\<rparr>],
      flow_steps = [\<lparr>FlowStep.pk = 1, flow = 1, approver = 2, order = 1, is_manager_step = True,
                      is_high_priority = False\<rparr>,
                    \<lparr>FlowStep.pk = 2, flow = 1, approver = 3, order = 2, is_manager_step = False,
                      is_high_priority = False\<rparr>],
      expenses = [\<lparr>Expense.pk = 1, employee = 1, description = ''Taxi'', category = ''Travel'',
                    amount = 500000, currency_code = ''INR'', currency_symbol = ''Rs'',
                    converted_amount = 500000, converted_currency_code = ''INR'',
                    converted_currency_symbol = ''Rs'', expense_date = 0, receipt = None,
                    status = DRAFT, created_at = 0, approval_rule = None, flow = None\<rparr>],
      expense_approvals = [],
      clock = 1\<rparr>"





text \<open>An empty database, and an administrator who signs up with a company to provision.\<close>

definition empty_db :: db where
  "empty_db =
     \<lparr>companies = [], departments = [], users = [], approval_rules = [], approval_flows = [],
      flow_steps = [], expenses = [], expense_approvals = [], clock = 0\<rparr>"

definition admin_signup :: UserInstance where
  "admin_signup =
     \<lparr>User.pk = None, username = ''root'', company = None, department = None, role = ADMIN,
      manager = None, company_name_attr = Some ''Acme'', country_attr = Some ''India'',
      currency_code_attr = Some ''INR'', currency_symbol_attr = Some ''Rs''\<rparr>"

text \<open>A user who is their own manager: \<^verbatim>\<open>manager\<close> is a key to \<^verbatim>\<open>"self"\<close>.\<close>

definition own_manager :: User where
  "own_manager =
     \<lparr>User.pk = Some 7, username = ''founder'', company = None, department = None,
      role = MANAGER, manager = Some 7\<rparr>"

definition own_manager_db :: db where
  "own_manager_db = empty_db\<lparr>users := [own_manager]\<rparr>"

text \<open>Decisions of steps that are not high-priority steps, and one of a step that is.\<close>

definition approved_by :: "nat \<Rightarrow> Decision" where
  "approved_by u = \<lparr>decided_by = u, outcome = OUTCOME_APPROVED, high_priority = False\<rparr>"

definition director_approved :: Decision where
  "director_approved = \<lparr>decided_by = 9, outcome = OUTCOME_APPROVED, high_priority = True\<rparr>"



text \<open>A PERCENTAGE rule of Acme that is created with no percentage.\<close>

definition bare_rule :: ApprovalRule where
  "bare_rule =
     \<lparr>ApprovalRule.pk = 2, company = 1, name = ''Sixty percent'', rule_type = PERCENTAGE,
      minimum_percentage = None, specific_approver = None, is_active = True\<rparr>"

text \<open>Acme with a decision history: the manager has approved, the CFO has not yet decided.\<close>

definition acme_history_db :: db where
  "acme_history_db =
     acme_db\<lparr>expense_approvals :=
       [\<lparr>ExpenseApproval.pk = 1, expense = 1, approver = 2, flow_step = Some 1,
          status = APPROVAL_APPROVED, comments = ''ok'', acted_at = Some 1\<rparr>,
        \<lparr>ExpenseApproval.pk = 2, expense = 1, approver = 3, flow_step = Some 2,
          status = APPROVAL_PENDING, comments = [], acted_at = None\<rparr>]\<rparr>"

text \<open>The same history when the manager's step is a high-priority step.\<close>

definition acme_priority_db :: db where
  "acme_priority_db =
     acme_history_db\<lparr>flow_steps :=
       [\<lparr>FlowStep.pk = 1, flow = 1, approver = 2, order = 1, is_manager_step = True,
          is_high_priority = True\<rparr>,
        \<lparr>FlowStep.pk = 2, flow = 1, approver = 3, order = 2, is_manager_step = False,
          is_high_priority = False\<rparr>]\<rparr>"

section \<open>Properties of the schema\<close>

subsection \<open>Primary keys\<close>



subsection \<open>Company provisioning\<close>

declare User_save.simps [simp del] create_company_for_admin.simps [simp del]






lemma admin_signup_saved:
  "User_save empty_db admin_signup =
     (empty_db\<lparr>companies := [\<lparr>Company.pk = 1, name = ''Acme'', country = ''India'',
                               currency_code = ''INR'', currency_symbol = ''Rs'', created_at = 0\<rparr>],
               users := [\<lparr>User.pk = Some 1, username = ''root'', company = Some 1,
                          department = None, role = ADMIN, manager = None\<rparr>]\<rparr>,
      admin_signup\<lparr>User.pk := Some 1, User.company := Some 1\<rparr>)"
  by (simp add: User_save.simps create_company_for_admin.simps User_write_def
      Company_objects_create_def empty_db_def admin_signup_def next_pk_def Let_def
      List.map_filter_def User.truncate_def)


subsection \<open>Rule fields\<close>

lemma User_delete_approval_rules:
  "approval_rules (User_delete d m) =
     map (\<lambda>r. if specific_approver r = Some m then r\<lparr>specific_approver := None\<rparr> else r)
       (approval_rules d)"
  by (simp add: User_delete_def Let_def FlowStep_delete_def Expense_delete_def
      ExpenseApproval_delete_def)

text \<open>
  C6, as the code has it. \<^verbatim>\<open>minimum_percentage\<close> and \<^verbatim>\<open>specific_approver\<close> are
  nullable whatever the rule type: creating a rule stores the two fields as they are
  passed, null or not, and deleting the user who is the specific approver of a rule sets
  that field to null and leaves the rule type as it is.
\<close>

theorem rule_fields_nullable:
  "(c \<in> set (map Company.pk (companies d)) \<and> (sa = None \<or> sa \<in> set (map User.pk (users d)))
      \<longrightarrow> (\<exists>d' r. ApprovalRule_objects_create d c n rt mp sa act = Inr (d', r)
             \<and> approval_rules d' = approval_rules d @ [r]
             \<and> rule_type r = rt \<and> minimum_percentage r = mp \<and> specific_approver r = sa))
   \<and> (r \<in> set (approval_rules d) \<and> specific_approver r = Some m
      \<longrightarrow> r\<lparr>specific_approver := None\<rparr> \<in> set (approval_rules (User_delete d m)))"
proof (intro conjI impI)
  assume "c \<in> set (map Company.pk (companies d)) \<and> (sa = None \<or> sa \<in> set (map User.pk (users d)))"
  then show "\<exists>d' r. ApprovalRule_objects_create d c n rt mp sa act = Inr (d', r)
             \<and> approval_rules d' = approval_rules d @ [r]
             \<and> rule_type r = rt \<and> minimum_percentage r = mp \<and> specific_approver r = sa"
    by (auto simp: ApprovalRule_objects_create_def Let_def)
next
  assume "r \<in> set (approval_rules d) \<and> specific_approver r = Some m"
  then show "r\<lparr>specific_approver := None\<rparr> \<in> set (approval_rules (User_delete d m))"
    unfolding User_delete_approval_rules by force
qed

theorem rule_fields_nullable_witness:
  "1 \<in> set (map Company.pk (companies acme_db))
   \<and> (\<exists>d' r. ApprovalRule_objects_create acme_db 1 ''Both'' SPECIFIC (Some 60) None True = Inr (d', r)
          \<and> rule_type r = SPECIFIC \<and> minimum_percentage r = Some 60 \<and> specific_approver r = None)
   \<and> hd (approval_rules acme_db) \<in> set (approval_rules acme_db)
   \<and> specific_approver (hd (approval_rules acme_db)) = Some 3
   \<and> (hd (approval_rules acme_db))\<lparr>specific_approver := None\<rparr>
        \<in> set (approval_rules (User_delete acme_db 3))"
proof -
  have h: "1 \<in> set (map Company.pk (companies acme_db))"
    "hd (approval_rules acme_db) \<in> set (approval_rules acme_db)"
    "specific_approver (hd (approval_rules acme_db)) = Some 3"
    by (simp_all add: acme_db_def)
  with rule_fields_nullable [of 1 acme_db None "''Both''" SPECIFIC "Some 60" True
      "hd (approval_rules acme_db)" 3]
  show ?thesis by blast
qed

text \<open>
  A PERCENTAGE rule is created with no percentage, and the SPECIFIC rule of Acme is left
  with no approver when the CFO's account is deleted.
\<close>

theorem rule_fields_populated_counterexample:
  "ApprovalRule_objects_create acme_db 1 ''Sixty percent'' PERCENTAGE None None True
     = Inr (acme_db\<lparr>approval_rules := approval_rules acme_db @ [bare_rule]\<rparr>, bare_rule)
   \<and> \<not> rule_fields_populated bare_rule
   \<and> rule_fields_populated (hd (approval_rules acme_db))
   \<and> \<not> rule_fields_populated (hd (approval_rules (User_delete acme_db 3)))"
  by (simp add: ApprovalRule_objects_create_def acme_db_def bare_rule_def rule_fields_populated_def
      next_pk_def User_delete_approval_rules Let_def)

subsection \<open>Deleting a user\<close>

lemma User_delete_users:
  "users (User_delete d m) =
     map (\<lambda>u. if manager u = Some m then u\<lparr>manager := None\<rparr> else u)
         (filter (\<lambda>u. User.pk u \<noteq> Some m) (users d))"
  by (simp add: User_delete_def Let_def FlowStep_delete_def Expense_delete_def
      ExpenseApproval_delete_def)

lemma User_delete_flow_steps:
  "flow_steps (User_delete d m) =
     filter (\<lambda>s. FlowStep.pk s \<notin> FlowStep.pk ` {s \<in> set (flow_steps d). FlowStep.approver s = m})
       (flow_steps d)"
  by (simp add: User_delete_def Let_def FlowStep_delete_def Expense_delete_def
      ExpenseApproval_delete_def)

lemma User_delete_approval_flows: "approval_flows (User_delete d m) = approval_flows d"
  by (simp add: User_delete_def Let_def FlowStep_delete_def Expense_delete_def
      ExpenseApproval_delete_def)

text \<open>
  C7, as the code has it. For users \<open>u\<close> and \<open>m\<close> that are not the same user, with
  \<open>m\<close> the manager of \<open>u\<close>: deleting \<open>m\<close> keeps the row of \<open>u\<close>, with \<^verbatim>\<open>manager\<close> null
  and every other field as it was.
\<close>

theorem manager_deleted:
  assumes "u \<in> set (users d)" and "manager u = Some m" and "User.pk u \<noteq> Some m"
  shows "u\<lparr>manager := None\<rparr> \<in> set (users (User_delete d m))"
  using assms unfolding User_delete_users by force

theorem manager_deleted_witness:
  "hd (users acme_db) \<in> set (users acme_db) \<and> manager (hd (users acme_db)) = Some 2
   \<and> User.pk (hd (users acme_db)) \<noteq> Some 2
   \<and> (hd (users acme_db))\<lparr>manager := None\<rparr> \<in> set (users (User_delete acme_db 2))"
proof -
  have h: "hd (users acme_db) \<in> set (users acme_db)" "manager (hd (users acme_db)) = Some 2"
    "User.pk (hd (users acme_db)) \<noteq> Some 2"
    by (simp_all add: acme_db_def)
  with manager_deleted [of "hd (users acme_db)" acme_db 2] show ?thesis by blast
qed

text \<open>A user who is their own manager is deleted with their manager.\<close>

theorem manager_deleted_counterexample:
  "own_manager \<in> set (users own_manager_db) \<and> manager own_manager = Some 7
   \<and> users (User_delete own_manager_db 7) = []"
  by (simp add: User_delete_users own_manager_db_def own_manager_def empty_db_def)

text \<open>
  C10. Deleting a user deletes every flow step of which the user is the approver, whether or
  not it is a manager step, while the flows themselves stay: a flow loses steps.
\<close>

theorem approver_deleted:
  assumes "s \<in> set (flow_steps d)" and "FlowStep.approver s = u"
  shows "FlowStep.pk s \<notin> set (map FlowStep.pk (flow_steps (User_delete d u)))
     \<and> s \<notin> set (flow_steps (User_delete d u))
     \<and> approval_flows (User_delete d u) = approval_flows d"
proof -
  from assms have "FlowStep.pk s \<in> FlowStep.pk ` {s \<in> set (flow_steps d). FlowStep.approver s = u}"
    by blast
  then show ?thesis
    by (auto simp: User_delete_flow_steps User_delete_approval_flows)
qed

theorem approver_deleted_witness:
  "last (flow_steps acme_db) \<in> set (flow_steps acme_db)
   \<and> FlowStep.approver (last (flow_steps acme_db)) = 3
   \<and> FlowStep.pk (last (flow_steps acme_db)) \<notin> set (map FlowStep.pk (flow_steps (User_delete acme_db 3)))
   \<and> map FlowStep.pk (flow_steps (User_delete acme_db 3)) = [1]
   \<and> approval_flows (User_delete acme_db 3) = approval_flows acme_db"
proof -
  have h: "last (flow_steps acme_db) \<in> set (flow_steps acme_db)"
    "FlowStep.approver (last (flow_steps acme_db)) = 3"
    by (simp_all add: acme_db_def)
  have "map FlowStep.pk (flow_steps (User_delete acme_db 3)) = [1]"
    by (simp add: User_delete_def Let_def FlowStep_delete_def Expense_delete_def
        ExpenseApproval_delete_def acme_db_def)
  with h approver_deleted [of "last (flow_steps acme_db)" acme_db 3] show ?thesis by blast
qed

subsection \<open>Deleting a flow step\<close>

text \<open>
  C8. Deleting a flow step keeps every approval that points to it: its \<^verbatim>\<open>flow_step\<close>
  becomes null, and its status, comments, \<^verbatim>\<open>acted_at\<close> and other fields are as before; no
  approval row is added or removed.
\<close>

theorem flow_step_deleted:
  assumes "a \<in> set (expense_approvals d)" and "flow_step a = Some s"
  shows "a\<lparr>flow_step := None\<rparr> \<in> set (expense_approvals (FlowStep_delete d [s]))
     \<and> map (\<lambda>a. (ExpenseApproval.pk a, expense a, ExpenseApproval.approver a,
                  ExpenseApproval.status a, comments a, acted_at a))
           (expense_approvals (FlowStep_delete d [s]))
       = map (\<lambda>a. (ExpenseApproval.pk a, expense a, ExpenseApproval.approver a,
                  ExpenseApproval.status a, comments a, acted_at a))
           (expense_approvals d)"
proof
  from assms show "a\<lparr>flow_step := None\<rparr> \<in> set (expense_approvals (FlowStep_delete d [s]))"
    by (force simp: FlowStep_delete_def)
  show "map (\<lambda>a. (ExpenseApproval.pk a, expense a, ExpenseApproval.approver a,
                  ExpenseApproval.status a, comments a, acted_at a))
           (expense_approvals (FlowStep_delete d [s]))
       = map (\<lambda>a. (ExpenseApproval.pk a, expense a, ExpenseApproval.approver a,
                  ExpenseApproval.status a, comments a, acted_at a))
           (expense_approvals d)"
    by (auto simp: FlowStep_delete_def split: option.splits)
qed


theorem flow_step_deleted_witness:
  "hd (expense_approvals acme_history_db) \<in> set (expense_approvals acme_history_db)
   \<and> flow_step (hd (expense_approvals acme_history_db)) = Some 1
   \<and> (hd (expense_approvals acme_history_db))\<lparr>flow_step := None\<rparr>
        \<in> set (expense_approvals (FlowStep_delete acme_history_db [1]))
   \<and> map ExpenseApproval.status (expense_approvals (FlowStep_delete acme_history_db [1]))
        = [APPROVAL_APPROVED, APPROVAL_PENDING]
   \<and> map flow_step (expense_approvals (FlowStep_delete acme_history_db [1])) = [None, Some 2]"
proof -
  have h: "hd (expense_approvals acme_history_db) \<in> set (expense_approvals acme_history_db)"
    "flow_step (hd (expense_approvals acme_history_db)) = Some 1"
    by (simp_all add: acme_history_db_def)
  have "map ExpenseApproval.status (expense_approvals (FlowStep_delete acme_history_db [1]))
        = [APPROVAL_APPROVED, APPROVAL_PENDING]"
    "map flow_step (expense_approvals (FlowStep_delete acme_history_db [1])) = [None, Some 2]"
    by (simp_all add: FlowStep_delete_def acme_history_db_def)
  with h flow_step_deleted [of "hd (expense_approvals acme_history_db)" acme_history_db 1]
  show ?thesis by blast
qed

section \<open>Properties of the approval engine\<close>

subsection \<open>Rule Evaluator\<close>

lemma percentage_verdict_Approved:
  "percentage_verdict p ds activated n = Approved \<longleftrightarrow>
     of_int p \<le> (of_nat (approved_count ds) :: rat) / of_nat n * 100"
  by (simp add: percentage_verdict_def Let_def)

lemma sixty_percent_of_five:
  "(of_int 60 \<le> (of_nat k :: rat) / of_nat 5 * 100) \<longleftrightarrow> 3 \<le> k"
proof -
  have "(of_int 60 \<le> (of_nat k :: rat) / of_nat 5 * 100) \<longleftrightarrow> (60 :: rat) \<le> of_nat k * 20"
    by simp
  also have "\<dots> \<longleftrightarrow> (of_nat 60 :: rat) \<le> of_nat (k * 20)"
    by simp
  also have "\<dots> \<longleftrightarrow> 60 \<le> k * 20"
    by (simp only: of_nat_le_iff)
  also have "\<dots> \<longleftrightarrow> 3 \<le> k" by arith
  finally show ?thesis .
qed

text \<open>
  C1, as the evaluator has it. While no APPROVED decision is of a high-priority step, a
  PERCENTAGE rule of 60 over a flow of 5 steps is Approved exactly when at least 3
  decisions are APPROVED; and for every threshold \<open>p\<close> and every flow of \<open>n > 0\<close> steps it
  is Approved exactly when \<open>approved_count / n * 100 \<ge> p\<close>, with \<open>n\<close> all steps of the
  flow, whatever the number of steps activated.
\<close>

theorem percentage_threshold:
  assumes "\<not> (\<exists>dc \<in> set ds. outcome dc = OUTCOME_APPROVED \<and> high_priority dc)"
  shows "(evaluate (Some (Percentage 60)) ds activated 5 = Approved \<longleftrightarrow> 3 \<le> approved_count ds)
     \<and> (0 < n \<longrightarrow>
          (evaluate (Some (Percentage p)) ds activated n = Approved \<longleftrightarrow>
             of_int p \<le> (of_nat (approved_count ds) :: rat) / of_nat n * 100))"
proof -
  from assms have "\<not> list_ex (\<lambda>dc. outcome dc = OUTCOME_APPROVED \<and> high_priority dc) ds"
    unfolding list_ex_iff .
  then have "evaluate (Some (Percentage q)) ds activated m = percentage_verdict q ds activated m"
    for q m
    by (simp add: evaluate_def)
  then show ?thesis
    using sixty_percent_of_five [of "approved_count ds"]
    by (simp only: percentage_verdict_Approved) simp
qed

theorem percentage_threshold_witness:
  "\<not> (\<exists>dc \<in> set [approved_by 1, approved_by 2, approved_by 3].
         outcome dc = OUTCOME_APPROVED \<and> high_priority dc)
   \<and> evaluate (Some (Percentage 60)) [approved_by 1, approved_by 2, approved_by 3] 3 5 = Approved
   \<and> approved_count [approved_by 1, approved_by 2, approved_by 3] = 3
   \<and> evaluate (Some (Percentage 60)) [approved_by 1, approved_by 2] 2 5 \<noteq> Approved"
proof -
  have h: "\<not> (\<exists>dc \<in> set [approved_by 1, approved_by 2, approved_by 3].
         outcome dc = OUTCOME_APPROVED \<and> high_priority dc)"
    "\<not> (\<exists>dc \<in> set [approved_by 1, approved_by 2].
         outcome dc = OUTCOME_APPROVED \<and> high_priority dc)"
    by (simp_all add: approved_by_def)
  have c: "approved_count [approved_by 1, approved_by 2, approved_by 3] = 3"
    "approved_count [approved_by 1, approved_by 2] = 2"
    by (simp_all add: approved_count_def approved_by_def)
  from percentage_threshold [OF h(1), of 3 5 60] percentage_threshold [OF h(2), of 2 5 60] h(1) c
  show ?thesis by simp
qed

text \<open>
  One APPROVED decision of a high-priority step: the verdict of the same rule over 5 steps
  is Approved with 1 decision APPROVED.
\<close>

theorem percentage_threshold_counterexample:
  "evaluate (Some (Percentage 60)) [director_approved] 1 5 = Approved
   \<and> approved_count [director_approved] = 1"
  by (simp add: evaluate_def approved_count_def director_approved_def)

lemma map_filter_member: "x \<in> set xs \<Longrightarrow> f x = Some y \<Longrightarrow> y \<in> set (List.map_filter f xs)"
  by (induction xs) (auto split: option.splits)

lemma decision_of_high_priority:
  assumes "ExpenseApproval.status a = APPROVAL_APPROVED" and "flow_step a = Some sk"
    and "get_step d sk = Some s" and "is_high_priority s"
  shows "\<exists>dc. decision_of d a = Some dc \<and> outcome dc = OUTCOME_APPROVED \<and> high_priority dc"
  using assms by (simp add: decision_of_def)

text \<open>
  C3. Whatever the rule (PERCENTAGE, SPECIFIC, HYBRID or none), the verdict is Approved
  when the decisions hold an APPROVED decision of a high-priority step; in particular
  when an approval of the expense is APPROVED and its flow step has
  \<^verbatim>\<open>is_high_priority\<close> set.
\<close>

theorem high_priority_override:
  "((\<exists>dc \<in> set ds. outcome dc = OUTCOME_APPROVED \<and> high_priority dc)
      \<longrightarrow> evaluate rule' ds activated total_steps = Approved)
   \<and> (a \<in> set (approvals_of d e) \<and> ExpenseApproval.status a = APPROVAL_APPROVED
        \<and> flow_step a = Some sk \<and> get_step d sk = Some s \<and> is_high_priority s
      \<longrightarrow> evaluate rule' (decisions_so_far d e) activated total_steps = Approved)"
proof (intro conjI impI)
  assume "\<exists>dc \<in> set ds. outcome dc = OUTCOME_APPROVED \<and> high_priority dc"
  then show "evaluate rule' ds activated total_steps = Approved"
    by (auto simp: evaluate_def list_ex_iff)
next
  assume h: "a \<in> set (approvals_of d e) \<and> ExpenseApproval.status a = APPROVAL_APPROVED
        \<and> flow_step a = Some sk \<and> get_step d sk = Some s \<and> is_high_priority s"
  then obtain dc where "decision_of d a = Some dc" "outcome dc = OUTCOME_APPROVED" "high_priority dc"
    using decision_of_high_priority by blast
  with h have "\<exists>dc \<in> set (decisions_so_far d e). outcome dc = OUTCOME_APPROVED \<and> high_priority dc"
    by (auto simp: decisions_so_far_def intro: map_filter_member)
  then show "evaluate rule' (decisions_so_far d e) activated total_steps = Approved"
    by (auto simp: evaluate_def list_ex_iff)
qed

theorem high_priority_override_witness:
  "(\<exists>dc \<in> set [director_approved]. outcome dc = OUTCOME_APPROVED \<and> high_priority dc)
   \<and> evaluate (Some (Percentage 60)) [director_approved] 1 5 = Approved
   \<and> hd (expense_approvals acme_priority_db) \<in> set (approvals_of acme_priority_db 1)
   \<and> ExpenseApproval.status (hd (expense_approvals acme_priority_db)) = APPROVAL_APPROVED
   \<and> flow_step (hd (expense_approvals acme_priority_db)) = Some 1
   \<and> get_step acme_priority_db 1 = Some (hd (flow_steps acme_priority_db))
   \<and> is_high_priority (hd (flow_steps acme_priority_db))
   \<and> evaluate (Some (Percentage 60)) (decisions_so_far acme_priority_db 1) 2 2 = Approved"
proof -
  have h1: "\<exists>dc \<in> set [director_approved]. outcome dc = OUTCOME_APPROVED \<and> high_priority dc"
    by (simp add: director_approved_def)
  have h2: "hd (expense_approvals acme_priority_db) \<in> set (approvals_of acme_priority_db 1)
     \<and> ExpenseApproval.status (hd (expense_approvals acme_priority_db)) = APPROVAL_APPROVED
     \<and> flow_step (hd (expense_approvals acme_priority_db)) = Some 1
     \<and> get_step acme_priority_db 1 = Some (hd (flow_steps acme_priority_db))
     \<and> is_high_priority (hd (flow_steps acme_priority_db))"
    by (simp add: acme_priority_db_def acme_history_db_def acme_db_def approvals_of_def get_step_def)
  from h1 h2
    high_priority_override [of "[director_approved]" "Some (Percentage 60)" 1 5
      "hd (expense_approvals acme_priority_db)" acme_priority_db 1 1
      "hd (flow_steps acme_priority_db)"]
    high_priority_override [of "[director_approved]" "Some (Percentage 60)" 2 2
      "hd (expense_approvals acme_priority_db)" acme_priority_db 1 1
      "hd (flow_steps acme_priority_db)"]
  show ?thesis by blast
qed

subsection \<open>What a completed call has done\<close>




lemma approvals_of_update_expense [simp]:
  "approvals_of (update_expense d e upd) e' = approvals_of d e'"
  by (simp add: approvals_of_def update_expense_def)



lemma get_expense_activate [simp]: "get_expense (activate d e sa) e' = get_expense d e'"
  by (simp add: get_expense_def activate_def)

lemma get_expense_decide [simp]: "get_expense (decide d k oc cm) e' = get_expense d e'"
  by (simp add: get_expense_def decide_def)

lemma status_of_outcome_decided [simp]: "status_of_outcome oc \<noteq> APPROVAL_PENDING"
  by (cases oc) simp_all


lemma flow_steps_frame [simp]:
  "flow_steps (activate d e sa) = flow_steps d"
  "flow_steps (decide d k oc cm) = flow_steps d"
  "flow_steps (update_expense d e upd) = flow_steps d"
  by (simp_all add: activate_def decide_def update_expense_def)

lemma steps_of_frame [simp]:
  "steps_of (activate d e sa) fk = steps_of d fk"
  "steps_of (decide d k oc cm) fk = steps_of d fk"
  "steps_of (update_expense d e upd) fk = steps_of d fk"
  by (simp_all add: steps_of_def)

subsection \<open>One open step\<close>









subsection \<open>Steps in ascending order\<close>


















subsection \<open>The scenario\<close>







subsection \<open>What a completed call has written\<close>







subsection \<open>The state machine\<close>









end
